theory Spec2Isabelle
  imports Main
begin

section \<open>The automation runner \<open>automate_system.py\<close>\<close>

text \<open>
  The script reads five environment variables, picks a command list, runs it either with
  local subprocesses or over one SSH session, prints a JSON summary and exits with the
  code of the run. Everything outside the script (the environment, the shell, the SSH
  library and the hosts behind it) is a value of the record \<open>world\<close>; every function of
  the script takes it as its first argument and returns, next to its Python result, the
  list of effects it caused, in order.

  Python strings are lists of code points; the model has the code points below 256.
\<close>

subsection \<open>Exceptions, processes, effects\<close>

text \<open>An exception is its class name and the text \<open>str(e)\<close> gives.\<close>

datatype exn = Exn (exc_class: string) (exc_str: string)

text \<open>What \<open>subprocess.run(..., capture_output=True, text=True)\<close> returns.\<close>

record completed_process =
  returncode :: int
  stdout :: string
  stderr :: string

text \<open>
  What lines 60 to 64 read from the channel of one remote command:
  \<open>stdout.channel.recv_exit_status()\<close>, \<open>stdout.read().decode()\<close>, \<open>stderr.read().decode()\<close>.
\<close>

record remote_result =
  exit_status :: int
  stdout_text :: string
  stderr_text :: string

datatype pkey = RSAKey string

datatype event =
    Import string
  | Spawn string
  | ConnectAttempt string string
  | SessionOpened
  | ExecCommand string
  | SessionClosed

text \<open>
  The shell and the remote host have state: what a command does may depend on what ran
  before it, so both take the effects so far. Each library call either raises (\<open>Inl\<close>,
  for \<open>connect\<close> \<open>Some\<close>) or returns; \<open>subprocess.run\<close> raises when the shell cannot be
  started or, with \<open>text=True\<close>, when what the command wrote cannot be decoded. What the libraries raise are instances of
  \<open>Exception\<close> (socket, authentication and protocol errors), which is what the handler of
  line 70 catches; signals such as \<open>KeyboardInterrupt\<close> are not modelled.
\<close>

record world =
  environ :: "string \<rightharpoonup> string"
  paramiko_importable :: bool
  subprocess_run :: "event list \<Rightarrow> string \<Rightarrow> exn + completed_process"
  from_private_key :: "string \<Rightarrow> exn + pkey"
  connect :: "string \<Rightarrow> string \<Rightarrow> pkey \<Rightarrow> exn option"
  exec_command :: "event list \<Rightarrow> string \<Rightarrow> exn + remote_result"

type_synonym run_result = "(exn + int \<times> string) \<times> event list"

subsection \<open>Module-level configuration (lines 20 to 31)\<close>

definition getenv :: "world \<Rightarrow> string \<Rightarrow> string \<Rightarrow> string" where
  "getenv w name dflt = (case environ w name of None \<Rightarrow> dflt | Some v \<Rightarrow> v)"

definition SSH_MODE :: "world \<Rightarrow> bool" where
  "SSH_MODE w = (getenv w ''AUTOMATE_VIA_SSH'' '''' = ''1'')"

definition SYSTEM_HOST :: "world \<Rightarrow> string" where
  "SYSTEM_HOST w = getenv w ''SYSTEM_HOST'' ''''"

definition SYSTEM_USER :: "world \<Rightarrow> string" where
  "SYSTEM_USER w = getenv w ''SYSTEM_USER'' ''''"

definition SSH_PRIVATE_KEY :: "world \<Rightarrow> string" where
  "SSH_PRIVATE_KEY w = getenv w ''SSH_PRIVATE_KEY'' ''''"

definition AUTOMATION_COMMAND :: "world \<Rightarrow> string" where
  "AUTOMATION_COMMAND w = getenv w ''AUTOMATION_COMMAND'' ''''"

definition DEFAULT_COMMANDS :: "string list" where
  "DEFAULT_COMMANDS =
    [''echo 'Step 1: Pull latest code or artifacts'' @ [CHR 0x27],
     ''echo 'Step 2: Run tests'' @ [CHR 0x27],
     ''echo 'Step 3: Restart service'' @ [CHR 0x27]]"

text \<open>Line 74: \<open>[AUTOMATION_COMMAND] if AUTOMATION_COMMAND else DEFAULT_COMMANDS\<close>.\<close>

definition commands :: "world \<Rightarrow> string list" where
  "commands w =
    (if AUTOMATION_COMMAND w \<noteq> [] then [AUTOMATION_COMMAND w] else DEFAULT_COMMANDS)"

subsection \<open>The local strategy (lines 33 to 42)\<close>

text \<open>\<open>sep.join(xs)\<close>, and \<open>"\n".join(xs)\<close> as the script uses it.\<close>

fun str_join :: "string \<Rightarrow> string list \<Rightarrow> string" where
  "str_join sep [] = []"
| "str_join sep [x] = x"
| "str_join sep (x # y # ys) = x @ sep @ str_join sep (y # ys)"

definition join_lines :: "string list \<Rightarrow> string" where
  "join_lines xs = str_join [CHR 0x0A] xs"

fun run_local_loop :: "world \<Rightarrow> event list \<Rightarrow> string list \<Rightarrow> string list \<Rightarrow> run_result" where
  "run_local_loop w tr combined_output [] = (Inr (0, join_lines combined_output), tr)"
| "run_local_loop w tr combined_output (cmd # rest) =
    (let combined_output = combined_output @ [''$ '' @ cmd] in
     case subprocess_run w tr cmd of
       Inl e \<Rightarrow> (Inl e, tr @ [Spawn cmd])
     | Inr proc \<Rightarrow>
        (let combined_output = combined_output @ [stdout proc] @ [stderr proc] in
         if returncode proc \<noteq> 0
         then (Inr (returncode proc, join_lines combined_output), tr @ [Spawn cmd])
         else run_local_loop w (tr @ [Spawn cmd]) combined_output rest))"

definition run_local :: "world \<Rightarrow> string list \<Rightarrow> run_result" where
  "run_local w cmds = run_local_loop w [] [] cmds"

subsection \<open>The remote strategy (lines 44 to 71)\<close>

text \<open>
  The names the module binds when \<open>run_ssh\<close> runs: the imports of lines 14 to 18, the
  constants of lines 20 to 31 and the three functions. \<open>run_ssh\<close> itself binds
  \<open>paramiko\<close> as a local. A name that is in neither (and is no builtin) raises
  \<open>NameError\<close> when it is read.
\<close>

definition module_globals :: "string list" where
  "module_globals =
    [''os'', ''sys'', ''json'', ''subprocess'', ''Tuple'',
     ''SSH_MODE'', ''SYSTEM_HOST'', ''SYSTEM_USER'', ''SSH_PRIVATE_KEY'',
     ''AUTOMATION_COMMAND'', ''DEFAULT_COMMANDS'', ''run_local'', ''run_ssh'', ''main'']"

definition name_error :: "string \<Rightarrow> exn" where
  "name_error name = Exn ''NameError'' (''name '' @ [CHR 0x27] @ name @ [CHR 0x27] @ '' is not defined'')"

definition load_global :: "string \<Rightarrow> exn + unit" where
  "load_global name = (if name \<in> set module_globals then Inr () else Inl (name_error name))"

text \<open>
  Lines 59 to 69, the loop inside the \<open>try\<close>. Any of lines 60, 61, 63 and 64 may raise;
  the lines gathered so far are then lost with the frame, so one \<open>Inl\<close> stands for all
  four. \<open>client.close()\<close> is taken not to raise.
\<close>

fun run_ssh_loop :: "world \<Rightarrow> event list \<Rightarrow> string list \<Rightarrow> string list \<Rightarrow> run_result" where
  "run_ssh_loop w tr out_lines [] = (Inr (0, join_lines out_lines), tr @ [SessionClosed])"
| "run_ssh_loop w tr out_lines (cmd # rest) =
    (case exec_command w tr cmd of
       Inl e \<Rightarrow> (Inl e, tr @ [ExecCommand cmd])
     | Inr res \<Rightarrow>
        (let out_lines = out_lines @ [''$ '' @ cmd] @ [stdout_text res] @ [stderr_text res] in
         if exit_status res \<noteq> 0
         then (Inr (exit_status res, join_lines out_lines), tr @ [ExecCommand cmd, SessionClosed])
         else run_ssh_loop w (tr @ [ExecCommand cmd]) out_lines rest))"

text \<open>Lines 57 to 69, the body of the \<open>try\<close>.\<close>

definition run_ssh_try :: "world \<Rightarrow> event list \<Rightarrow> pkey \<Rightarrow> string list \<Rightarrow> run_result" where
  "run_ssh_try w tr key cmds =
    (let tr = tr @ [ConnectAttempt (SYSTEM_HOST w) (SYSTEM_USER w)] in
     case connect w (SYSTEM_HOST w) (SYSTEM_USER w) key of
       Some e \<Rightarrow> (Inl e, tr)
     | None \<Rightarrow> run_ssh_loop w (tr @ [SessionOpened]) [] cmds)"

text \<open>
  Lines 54 to 71: the client, the \<open>try\<close> and its \<open>except Exception as e\<close>, which has no
  \<open>finally\<close> and does not close the client.
\<close>

definition run_ssh_session :: "world \<Rightarrow> event list \<Rightarrow> pkey \<Rightarrow> string list \<Rightarrow> run_result" where
  "run_ssh_session w tr key cmds =
    (case run_ssh_try w tr key cmds of
       (Inl e, tr') \<Rightarrow> (Inr (1, ''SSH error: '' @ exc_str e), tr')
     | (Inr r, tr') \<Rightarrow> (Inr r, tr'))"

text \<open>
  Lines 44 to 71. Line 53 evaluates \<open>paramiko.RSAKey.from_private_key\<close>, then its argument
  \<open>io.StringIO(SSH_PRIVATE_KEY)\<close>, which reads the global \<open>io\<close>; it stands before the
  \<open>try\<close> of line 56.
\<close>

definition run_ssh :: "world \<Rightarrow> string list \<Rightarrow> run_result" where
  "run_ssh w cmds =
    (let tr = [Import ''paramiko''] in
     if \<not> paramiko_importable w
     then (Inr (1, ''paramiko not installed. Add paramiko to requirements.txt or install it.''), tr)
     else if \<not> (SYSTEM_HOST w \<noteq> [] \<and> SYSTEM_USER w \<noteq> [] \<and> SSH_PRIVATE_KEY w \<noteq> [])
     then (Inr (1, ''Missing SYSTEM_HOST, SYSTEM_USER or SSH_PRIVATE_KEY for SSH mode.''), tr)
     else
       (case load_global ''io'' of
          Inl e \<Rightarrow> (Inl e, tr)
        | Inr _ \<Rightarrow>
           (case from_private_key w (SSH_PRIVATE_KEY w) of
              Inl e \<Rightarrow> (Inl e, tr)
            | Inr key \<Rightarrow> run_ssh_session w tr key cmds)))"

subsection \<open>The summary and \<open>main\<close> (lines 73 to 90)\<close>

datatype json = JNull | JBool bool | JInt int | JStr string

definition hex_digit :: "nat \<Rightarrow> char" where
  "hex_digit n = ''0123456789abcdef'' ! (n mod 16)"

text \<open>\<open>json.dumps\<close> with its default \<open>ensure_ascii=True\<close>: one character of a string.\<close>

definition escape_char :: "char \<Rightarrow> string" where
  "escape_char c =
    (if c = CHR 0x22 then [CHR 0x5C, CHR 0x22]
     else if c = CHR 0x5C then [CHR 0x5C, CHR 0x5C]
     else if c = CHR 0x0A then [CHR 0x5C, CHR ''n'']
     else if c = CHR 0x0D then [CHR 0x5C, CHR ''r'']
     else if c = CHR 0x09 then [CHR 0x5C, CHR ''t'']
     else if c = CHR 0x0C then [CHR 0x5C, CHR ''f'']
     else if c = CHR 0x08 then [CHR 0x5C, CHR ''b'']
     else if 32 \<le> (of_char c :: nat) \<and> (of_char c :: nat) \<le> 126 then [c]
     else [CHR 0x5C, CHR ''u'', CHR ''0'', CHR ''0'',
           hex_digit (of_char c div 16), hex_digit (of_char c mod 16)])"

fun show_nat :: "nat \<Rightarrow> string" where
  "show_nat n =
    (if n < 10 then [char_of (48 + n)] else show_nat (n div 10) @ [char_of (48 + n mod 10)])"

declare show_nat.simps [simp del]

definition show_int :: "int \<Rightarrow> string" where
  "show_int i = (if i < 0 then ''-'' @ show_nat (nat (- i)) else show_nat (nat i))"

fun dumps_value :: "json \<Rightarrow> string" where
  "dumps_value JNull = ''null''"
| "dumps_value (JBool b) = (if b then ''true'' else ''false'')"
| "dumps_value (JInt i) = show_int i"
| "dumps_value (JStr s) = [CHR 0x22] @ concat (map escape_char s) @ [CHR 0x22]"

definition dumps_item :: "string \<times> json \<Rightarrow> string" where
  "dumps_item kv = ''  '' @ dumps_value (JStr (fst kv)) @ '': '' @ dumps_value (snd kv)"

text \<open>\<open>json.dumps(d, indent=2)\<close> for a dictionary of scalars, in insertion order.\<close>

definition json_dumps :: "(string \<times> json) list \<Rightarrow> string" where
  "json_dumps d =
    (if d = [] then ''{}''
     else ''{'' @ [CHR 0x0A] @ str_join ('','' @ [CHR 0x0A]) (map dumps_item d) @ [CHR 0x0A] @ ''}'')"

text \<open>Lines 80 to 85.\<close>

definition summary :: "world \<Rightarrow> int \<Rightarrow> string \<Rightarrow> (string \<times> json) list" where
  "summary w code output =
    [(''ssh_mode'', JBool (SSH_MODE w)),
     (''system_host'', if SSH_MODE w then JStr (SYSTEM_HOST w) else JNull),
     (''exit_code'', JInt code),
     (''output'', JStr output)]"

text \<open>
  How the process ends: \<open>sys.exit(code)\<close>, or an exception nobody caught (a traceback on
  standard error and exit status 1, nothing on standard output).
\<close>

datatype process_end = SysExit int | Uncaught exn

record process_result =
  printed :: string
  ending :: process_end
  effects :: "event list"

text \<open>
  Lines 76 to 90, from the result of the strategy on: an exception of the strategy passes
  through \<open>main\<close>, which has no handler; otherwise the summary is printed and the process
  exits with the code.
\<close>

definition finish :: "world \<Rightarrow> run_result \<Rightarrow> process_result" where
  "finish w res =
    (case fst res of
       Inl e \<Rightarrow> \<lparr>printed = [], ending = Uncaught e, effects = snd res\<rparr>
     | Inr (code, output) \<Rightarrow>
         \<lparr>printed = json_dumps (summary w code output) @ [CHR 0x0A],
          ending = SysExit code, effects = snd res\<rparr>)"

definition main :: "world \<Rightarrow> process_result" where
  "main w =
    (let cmds = commands w in
     finish w (if SSH_MODE w then run_ssh w cmds else run_local w cmds))"

subsection \<open>Notions the properties are stated with\<close>

text \<open>Whether the SSH session is open after a list of effects.\<close>

fun session_open_from :: "bool \<Rightarrow> event list \<Rightarrow> bool" where
  "session_open_from b [] = b"
| "session_open_from b (SessionOpened # es) = session_open_from True es"
| "session_open_from b (SessionClosed # es) = session_open_from False es"
| "session_open_from b (e # es) = session_open_from b es"

definition session_open :: "event list \<Rightarrow> bool" where
  "session_open tr = session_open_from False tr"

text \<open>The effects only the remote strategy causes, and those that touch the network.\<close>

fun is_remote :: "event \<Rightarrow> bool" where
  "is_remote (Spawn c) = False"
| "is_remote e = True"

fun is_network :: "event \<Rightarrow> bool" where
  "is_network (Import m) = False"
| "is_network (Spawn c) = False"
| "is_network e = True"

text \<open>
  Command \<open>i\<close> (counting from 0) of a local run that starts after the effects \<open>tr\<close>, run
  after the commands before it: what the shell answers, its exit code if it has one, and
  the three lines it puts into the combined output.
\<close>

definition local_proc :: "world \<Rightarrow> event list \<Rightarrow> string list \<Rightarrow> nat \<Rightarrow> exn + completed_process" where
  "local_proc w tr cmds i = subprocess_run w (tr @ map Spawn (take i cmds)) (cmds ! i)"

definition local_exit :: "world \<Rightarrow> event list \<Rightarrow> string list \<Rightarrow> nat \<Rightarrow> int option" where
  "local_exit w tr cmds i = (case local_proc w tr cmds i of Inl e \<Rightarrow> None | Inr p \<Rightarrow> Some (returncode p))"

definition local_entry :: "world \<Rightarrow> event list \<Rightarrow> string list \<Rightarrow> nat \<Rightarrow> string list" where
  "local_entry w tr cmds i =
    (case local_proc w tr cmds i of Inl e \<Rightarrow> [] | Inr p \<Rightarrow> [''$ '' @ cmds ! i, stdout p, stderr p])"

text \<open>The same for command \<open>i\<close> of a session whose effects so far are \<open>tr\<close>.\<close>

definition remote_res :: "world \<Rightarrow> event list \<Rightarrow> string list \<Rightarrow> nat \<Rightarrow> exn + remote_result" where
  "remote_res w tr cmds i = exec_command w (tr @ map ExecCommand (take i cmds)) (cmds ! i)"

definition remote_exit :: "world \<Rightarrow> event list \<Rightarrow> string list \<Rightarrow> nat \<Rightarrow> int option" where
  "remote_exit w tr cmds i = (case remote_res w tr cmds i of Inl e \<Rightarrow> None | Inr r \<Rightarrow> Some (exit_status r))"

definition remote_entry :: "world \<Rightarrow> event list \<Rightarrow> string list \<Rightarrow> nat \<Rightarrow> string list" where
  "remote_entry w tr cmds i =
    (case remote_res w tr cmds i of
       Inl e \<Rightarrow> [] | Inr r \<Rightarrow> [''$ '' @ cmds ! i, stdout_text r, stderr_text r])"


subsection \<open>A concrete world\<close>

text \<open>
  A shell where \<open>exit 7\<close> exits with 7, \<open>echo 'text'\<close> prints the text and every other
  command prints \<open>ok\<close>, all of them exiting with 0; a host where \<open>exit 7\<close> exits
  with 7, \<open>reboot\<close> drops the channel and every other command prints \<open>done\<close> and exits
  with 0; the host \<open>unreachable\<close> times out.
\<close>

definition example_shell :: "event list \<Rightarrow> string \<Rightarrow> exn + completed_process" where
  "example_shell tr cmd =
    (if cmd = ''exit 7'' then Inr \<lparr>returncode = 7, stdout = [], stderr = []\<rparr>
     else if take 6 cmd = ''echo '' @ [CHR 0x27] \<and> 6 < length cmd \<and> last cmd = CHR 0x27
     then Inr \<lparr>returncode = 0, stdout = butlast (drop 6 cmd) @ [CHR 0x0A], stderr = []\<rparr>
     else Inr \<lparr>returncode = 0, stdout = ''ok'' @ [CHR 0x0A], stderr = []\<rparr>)"

definition example_host :: "event list \<Rightarrow> string \<Rightarrow> exn + remote_result" where
  "example_host tr cmd =
    (if cmd = ''exit 7'' then Inr \<lparr>exit_status = 7, stdout_text = [], stderr_text = []\<rparr>
     else if cmd = ''reboot'' then Inl (Exn ''SSHException'' ''Channel closed.'')
     else Inr \<lparr>exit_status = 0, stdout_text = ''done'' @ [CHR 0x0A], stderr_text = []\<rparr>)"

definition example_world :: "(string \<times> string) list \<Rightarrow> bool \<Rightarrow> world" where
  "example_world env pk =
    \<lparr>environ = map_of env,
     paramiko_importable = pk,
     subprocess_run = example_shell,
     from_private_key = (\<lambda>s. Inr (RSAKey s)),
     connect = (\<lambda>h u k. if h = ''unreachable'' then Some (Exn ''TimeoutError'' ''timed out'') else None),
     exec_command = example_host\<rparr>"

section \<open>Properties\<close>

subsection \<open>The two loops\<close>

text \<open>
  A loop whose first \<open>k\<close> commands exit with 0 reaches command \<open>k\<close> with their effects and
  their lines gathered; from there it stops, raises or runs to the end.
\<close>

lemma local_proc_Suc:
  "local_proc w tr (c # cs) (Suc i) = local_proc w (tr @ [Spawn c]) cs i"
  by (simp add: local_proc_def)

lemma local_entry_Suc:
  "local_entry w tr (c # cs) (Suc i) = local_entry w (tr @ [Spawn c]) cs i"
  by (simp add: local_entry_def local_proc_Suc split: sum.splits)

lemma local_exit_Suc:
  "local_exit w tr (c # cs) (Suc i) = local_exit w (tr @ [Spawn c]) cs i"
  by (simp add: local_exit_def local_proc_Suc split: sum.splits)

lemma upt_0_Suc_map: "map f [0..<Suc k] = f 0 # map (\<lambda>i. f (Suc i)) [0..<k]"
proof -
  have "[0..<Suc k] = 0 # map Suc [0..<k]"
    by (simp add: upt_conv_Cons map_Suc_upt del: upt_Suc)
  then show ?thesis by (simp add: comp_def del: upt_Suc)
qed

lemma run_local_loop_prefix:
  "k \<le> length cmds \<Longrightarrow> \<forall>i<k. local_exit w tr cmds i = Some 0 \<Longrightarrow>
   run_local_loop w tr out cmds =
   run_local_loop w (tr @ map Spawn (take k cmds))
     (out @ concat (map (local_entry w tr cmds) [0..<k])) (drop k cmds)"
proof (induction cmds arbitrary: k tr out)
  case Nil
  then show ?case by simp
next
  case (Cons c cs)
  show ?case
  proof (cases k)
    case 0
    then show ?thesis by simp
  next
    case (Suc j)
    from Cons.prems Suc have j: "j \<le> length cs" by simp
    from Cons.prems Suc have "local_exit w tr (c # cs) 0 = Some 0" by simp
    then obtain p where p: "subprocess_run w tr c = Inr p" "returncode p = 0"
      by (auto simp: local_exit_def local_proc_def split: sum.splits)
    have rest: "\<forall>i<j. local_exit w (tr @ [Spawn c]) cs i = Some 0"
      using Cons.prems Suc by (auto simp: local_exit_Suc [symmetric])
    have e0: "local_entry w tr (c # cs) 0 = [''$ '' @ c, stdout p, stderr p]"
      using p by (simp add: local_entry_def local_proc_def)
    have "run_local_loop w tr out (c # cs) =
          run_local_loop w (tr @ [Spawn c]) (out @ [''$ '' @ c, stdout p, stderr p]) cs"
      using p by simp
    also have "\<dots> = run_local_loop w ((tr @ [Spawn c]) @ map Spawn (take j cs))
        ((out @ [''$ '' @ c, stdout p, stderr p]) @
           concat (map (local_entry w (tr @ [Spawn c]) cs) [0..<j])) (drop j cs)"
      by (rule Cons.IH [OF j rest])
    finally show ?thesis
      using Suc by (simp add: upt_0_Suc_map e0 local_entry_Suc del: upt_Suc)
  qed
qed




lemma remote_res_Suc:
  "remote_res w tr (c # cs) (Suc i) = remote_res w (tr @ [ExecCommand c]) cs i"
  by (simp add: remote_res_def)

lemma remote_entry_Suc:
  "remote_entry w tr (c # cs) (Suc i) = remote_entry w (tr @ [ExecCommand c]) cs i"
  by (simp add: remote_entry_def remote_res_Suc split: sum.splits)

lemma remote_exit_Suc:
  "remote_exit w tr (c # cs) (Suc i) = remote_exit w (tr @ [ExecCommand c]) cs i"
  by (simp add: remote_exit_def remote_res_Suc split: sum.splits)

lemma run_ssh_loop_prefix:
  "k \<le> length cmds \<Longrightarrow> \<forall>i<k. remote_exit w tr cmds i = Some 0 \<Longrightarrow>
   run_ssh_loop w tr out cmds =
   run_ssh_loop w (tr @ map ExecCommand (take k cmds))
     (out @ concat (map (remote_entry w tr cmds) [0..<k])) (drop k cmds)"
proof (induction cmds arbitrary: k tr out)
  case Nil
  then show ?case by simp
next
  case (Cons c cs)
  show ?case
  proof (cases k)
    case 0
    then show ?thesis by simp
  next
    case (Suc j)
    from Cons.prems Suc have j: "j \<le> length cs" by simp
    from Cons.prems Suc have "remote_exit w tr (c # cs) 0 = Some 0" by simp
    then obtain res where res: "exec_command w tr c = Inr res" "exit_status res = 0"
      by (auto simp: remote_exit_def remote_res_def split: sum.splits)
    have rest: "\<forall>i<j. remote_exit w (tr @ [ExecCommand c]) cs i = Some 0"
      using Cons.prems Suc by (auto simp: remote_exit_Suc [symmetric])
    have e0: "remote_entry w tr (c # cs) 0 = [''$ '' @ c, stdout_text res, stderr_text res]"
      using res by (simp add: remote_entry_def remote_res_def)
    have "run_ssh_loop w tr out (c # cs) =
          run_ssh_loop w (tr @ [ExecCommand c])
            (out @ [''$ '' @ c, stdout_text res, stderr_text res]) cs"
      using res by simp
    also have "\<dots> = run_ssh_loop w ((tr @ [ExecCommand c]) @ map ExecCommand (take j cs))
        ((out @ [''$ '' @ c, stdout_text res, stderr_text res]) @
           concat (map (remote_entry w (tr @ [ExecCommand c]) cs) [0..<j])) (drop j cs)"
      by (rule Cons.IH [OF j rest])
    finally show ?thesis
      using Suc by (simp add: upt_0_Suc_map e0 remote_entry_Suc del: upt_Suc)
  qed
qed

lemma run_ssh_loop_stops:
  assumes k: "k < length cmds"
    and ok: "\<forall>i<k. remote_exit w tr cmds i = Some 0"
    and bad: "remote_exit w tr cmds k = Some r" "r \<noteq> 0"
  shows "run_ssh_loop w tr out cmds =
    (Inr (r, join_lines (out @ concat (map (remote_entry w tr cmds) [0..<Suc k]))),
     tr @ map ExecCommand (take (Suc k) cmds) @ [SessionClosed])"
proof -
  from bad obtain res where res: "remote_res w tr cmds k = Inr res" "exit_status res = r"
    by (auto simp: remote_exit_def split: sum.splits)
  have d: "drop k cmds = cmds ! k # drop (Suc k) cmds"
    using k by (simp add: Cons_nth_drop_Suc)
  have "run_ssh_loop w tr out cmds =
    run_ssh_loop w (tr @ map ExecCommand (take k cmds))
      (out @ concat (map (remote_entry w tr cmds) [0..<k])) (drop k cmds)"
    using k ok by (intro run_ssh_loop_prefix) simp_all
  also have "\<dots> = (Inr (r, join_lines ((out @ concat (map (remote_entry w tr cmds) [0..<k]))
       @ [''$ '' @ cmds ! k, stdout_text res, stderr_text res])),
     (tr @ map ExecCommand (take k cmds)) @ [ExecCommand (cmds ! k), SessionClosed])"
    using res bad(2) unfolding d by (simp add: remote_res_def)
  finally show ?thesis
    using res k by (simp add: remote_entry_def take_Suc_conv_app_nth)
qed


lemma run_ssh_loop_all:
  assumes ok: "\<forall>i<length cmds. remote_exit w tr cmds i = Some 0"
  shows "run_ssh_loop w tr out cmds =
    (Inr (0, join_lines (out @ concat (map (remote_entry w tr cmds) [0..<length cmds]))),
     tr @ map ExecCommand cmds @ [SessionClosed])"
  using run_ssh_loop_prefix [of "length cmds" cmds w tr out] ok by simp




subsection \<open>Command list selection\<close>

text \<open>
  C7: when \<open>AUTOMATION_COMMAND\<close> is set to a non-empty string, the command list is the
  one-element list holding that string; when it is empty or unset, the command list is
  the built-in sequence of three commands.
\<close>

theorem C7_command_list:
  "(environ w ''AUTOMATION_COMMAND'' = Some c \<and> c \<noteq> [] \<longrightarrow> commands w = [c]) \<and>
   (environ w ''AUTOMATION_COMMAND'' = None \<or> environ w ''AUTOMATION_COMMAND'' = Some []
      \<longrightarrow> commands w = DEFAULT_COMMANDS \<and> length (commands w) = 3)"
  by (auto simp: commands_def AUTOMATION_COMMAND_def getenv_def DEFAULT_COMMANDS_def)

theorem C7_command_list_witness:
  "environ (example_world [(''AUTOMATION_COMMAND'', ''exit 7'')] False) ''AUTOMATION_COMMAND''
     = Some ''exit 7'' \<and>
   commands (example_world [(''AUTOMATION_COMMAND'', ''exit 7'')] False) = [''exit 7''] \<and>
   environ (example_world [] False) ''AUTOMATION_COMMAND'' = None \<and>
   commands (example_world [] False) = DEFAULT_COMMANDS \<and>
   length (commands (example_world [] False)) = 3"
proof -
  have a: "environ (example_world [(''AUTOMATION_COMMAND'', ''exit 7'')] False) ''AUTOMATION_COMMAND''
     = Some ''exit 7''"
    by (simp add: example_world_def)
  have b: "environ (example_world [] False) ''AUTOMATION_COMMAND'' = None"
    by (simp add: example_world_def)
  from a b
    C7_command_list [of "example_world [(''AUTOMATION_COMMAND'', ''exit 7'')] False" "''exit 7''"]
    C7_command_list [of "example_world [] False"]
  show ?thesis by blast
qed

subsection \<open>Line 53, and the effects of the two strategies\<close>

text \<open>
  The module never imports \<open>io\<close>, so reading that name raises; \<open>run_ssh\<close> gets past its
  two checks only to stop there, before any connection.
\<close>

lemma load_global_io: "load_global ''io'' = Inl (name_error ''io'')"
  by (simp add: load_global_def module_globals_def)

lemma run_ssh_past_checks:
  "paramiko_importable w \<Longrightarrow> SYSTEM_HOST w \<noteq> [] \<Longrightarrow> SYSTEM_USER w \<noteq> [] \<Longrightarrow>
   SSH_PRIVATE_KEY w \<noteq> [] \<Longrightarrow>
   run_ssh w cmds = (Inl (name_error ''io''), [Import ''paramiko''])"
  by (simp add: run_ssh_def Let_def load_global_io)

lemma run_ssh_effects: "snd (run_ssh w cmds) = [Import ''paramiko'']"
  by (simp add: run_ssh_def Let_def load_global_io)

lemma run_local_loop_effects:
  "set (snd (run_local_loop w tr out cmds)) \<subseteq> set tr \<union> Spawn ` set cmds"
proof (induction cmds arbitrary: tr out)
  case Nil
  then show ?case by simp
next
  case (Cons c cs)
  show ?case
  proof (cases "subprocess_run w tr c")
    case (Inl e)
    then show ?thesis by auto
  next
    case (Inr p)
    show ?thesis
    proof (cases "returncode p = 0")
      case True
      with Inr have "run_local_loop w tr out (c # cs) =
        run_local_loop w (tr @ [Spawn c]) (out @ [''$ '' @ c, stdout p, stderr p]) cs"
        by simp
      moreover have "set (snd (run_local_loop w (tr @ [Spawn c])
          (out @ [''$ '' @ c, stdout p, stderr p]) cs)) \<subseteq> set (tr @ [Spawn c]) \<union> Spawn ` set cs"
        by (rule Cons.IH)
      ultimately show ?thesis by auto
    next
      case False
      with Inr show ?thesis by auto
    qed
  qed
qed

lemma effects_finish: "effects (finish w res) = snd res"
  by (cases res; cases "fst res") (auto simp: finish_def split: prod.splits)

subsection \<open>The checks of the remote strategy\<close>

text \<open>
  C10: \<open>run_ssh\<close> checks that paramiko can be imported before it checks the configuration.
  Where paramiko is unavailable it returns 1 with the message
  "paramiko not installed. Add paramiko to requirements.txt or install it.", whatever
  \<open>SYSTEM_HOST\<close>, \<open>SYSTEM_USER\<close> and \<open>SSH_PRIVATE_KEY\<close> hold; the message about missing
  configuration is returned only where paramiko is importable.
\<close>


theorem C10_paramiko_check_first:
  "(\<not> paramiko_importable w \<longrightarrow>
      run_ssh w cmds =
        (Inr (1, ''paramiko not installed. Add paramiko to requirements.txt or install it.''),
         [Import ''paramiko''])) \<and>
   (fst (run_ssh w cmds) =
        Inr (1, ''Missing SYSTEM_HOST, SYSTEM_USER or SSH_PRIVATE_KEY for SSH mode.'')
      \<longrightarrow> paramiko_importable w)"
  by (auto simp: run_ssh_def Let_def load_global_io)

theorem C10_paramiko_check_first_witness:
  "\<not> paramiko_importable (example_world [(''AUTOMATE_VIA_SSH'', ''1'')] False) \<and>
   SYSTEM_HOST (example_world [(''AUTOMATE_VIA_SSH'', ''1'')] False) = [] \<and>
   run_ssh (example_world [(''AUTOMATE_VIA_SSH'', ''1'')] False) DEFAULT_COMMANDS =
     (Inr (1, ''paramiko not installed. Add paramiko to requirements.txt or install it.''),
      [Import ''paramiko'']) \<and>
   fst (run_ssh (example_world [(''AUTOMATE_VIA_SSH'', ''1'')] True) DEFAULT_COMMANDS) =
     Inr (1, ''Missing SYSTEM_HOST, SYSTEM_USER or SSH_PRIVATE_KEY for SSH mode.'') \<and>
   paramiko_importable (example_world [(''AUTOMATE_VIA_SSH'', ''1'')] True)"
proof -
  have a: "\<not> paramiko_importable (example_world [(''AUTOMATE_VIA_SSH'', ''1'')] False)"
    by (simp add: example_world_def)
  have b: "SYSTEM_HOST (example_world [(''AUTOMATE_VIA_SSH'', ''1'')] False) = []"
    by (simp add: example_world_def SYSTEM_HOST_def getenv_def)
  have c: "fst (run_ssh (example_world [(''AUTOMATE_VIA_SSH'', ''1'')] True) DEFAULT_COMMANDS) =
     Inr (1, ''Missing SYSTEM_HOST, SYSTEM_USER or SSH_PRIVATE_KEY for SSH mode.'')"
    by (simp add: run_ssh_def Let_def example_world_def SYSTEM_HOST_def getenv_def)
  from a b c
    C10_paramiko_check_first [of "example_world [(''AUTOMATE_VIA_SSH'', ''1'')] False" DEFAULT_COMMANDS]
    C10_paramiko_check_first [of "example_world [(''AUTOMATE_VIA_SSH'', ''1'')] True" DEFAULT_COMMANDS]
  show ?thesis by blast
qed

text \<open>
  C8, as stated, fails: in remote mode with \<open>SSH_PRIVATE_KEY\<close> unset and paramiko not
  installed, the output is the message about paramiko, not the one about the missing
  configuration.
\<close>


theorem C8_missing_configuration_counterexample:
  "SSH_MODE (example_world [(''AUTOMATE_VIA_SSH'', ''1''), (''SYSTEM_HOST'', ''h''), (''SYSTEM_USER'', ''u'')] False) \<and>
   SSH_PRIVATE_KEY (example_world [(''AUTOMATE_VIA_SSH'', ''1''), (''SYSTEM_HOST'', ''h''), (''SYSTEM_USER'', ''u'')] False) = [] \<and>
   fst (run_ssh (example_world [(''AUTOMATE_VIA_SSH'', ''1''), (''SYSTEM_HOST'', ''h''), (''SYSTEM_USER'', ''u'')] False) DEFAULT_COMMANDS)
     = Inr (1, ''paramiko not installed. Add paramiko to requirements.txt or install it.'') \<and>
   fst (run_ssh (example_world [(''AUTOMATE_VIA_SSH'', ''1''), (''SYSTEM_HOST'', ''h''), (''SYSTEM_USER'', ''u'')] False) DEFAULT_COMMANDS)
     \<noteq> Inr (1, ''Missing SYSTEM_HOST, SYSTEM_USER or SSH_PRIVATE_KEY for SSH mode.'')"
  by (simp add: run_ssh_def Let_def example_world_def SSH_MODE_def SSH_PRIVATE_KEY_def getenv_def)

text \<open>
  C8, amended: if any of \<open>SYSTEM_HOST\<close>, \<open>SYSTEM_USER\<close>, \<open>SSH_PRIVATE_KEY\<close> is empty, the
  remote strategy returns exit code 1 and attempts no connection; where paramiko is
  importable, its output is exactly
  "Missing SYSTEM_HOST, SYSTEM_USER or SSH_PRIVATE_KEY for SSH mode.", and in remote mode
  the process prints the summary with that output and exits with 1.
\<close>

theorem C8_missing_configuration:
  "SYSTEM_HOST w = [] \<or> SYSTEM_USER w = [] \<or> SSH_PRIVATE_KEY w = [] \<Longrightarrow>
   (paramiko_importable w \<longrightarrow>
      run_ssh w cmds =
        (Inr (1, ''Missing SYSTEM_HOST, SYSTEM_USER or SSH_PRIVATE_KEY for SSH mode.''),
         [Import ''paramiko''])) \<and>
   (\<exists>msg. fst (run_ssh w cmds) = Inr (1, msg)) \<and>
   (\<forall>e \<in> set (snd (run_ssh w cmds)). \<not> is_network e) \<and>
   (SSH_MODE w \<and> paramiko_importable w \<longrightarrow>
      main w =
        \<lparr>printed = json_dumps (summary w 1
            ''Missing SYSTEM_HOST, SYSTEM_USER or SSH_PRIVATE_KEY for SSH mode.'') @ [CHR 0x0A],
         ending = SysExit 1, effects = [Import ''paramiko'']\<rparr>)"
  by (auto simp: run_ssh_def Let_def main_def finish_def)

theorem C8_missing_configuration_witness:
  "SSH_PRIVATE_KEY (example_world [(''AUTOMATE_VIA_SSH'', ''1''), (''SYSTEM_HOST'', ''h''), (''SYSTEM_USER'', ''u'')] True) = [] \<and>
   paramiko_importable (example_world [(''AUTOMATE_VIA_SSH'', ''1''), (''SYSTEM_HOST'', ''h''), (''SYSTEM_USER'', ''u'')] True) \<and>
   SSH_MODE (example_world [(''AUTOMATE_VIA_SSH'', ''1''), (''SYSTEM_HOST'', ''h''), (''SYSTEM_USER'', ''u'')] True) \<and>
   run_ssh (example_world [(''AUTOMATE_VIA_SSH'', ''1''), (''SYSTEM_HOST'', ''h''), (''SYSTEM_USER'', ''u'')] True) DEFAULT_COMMANDS =
     (Inr (1, ''Missing SYSTEM_HOST, SYSTEM_USER or SSH_PRIVATE_KEY for SSH mode.''), [Import ''paramiko'']) \<and>
   ending (main (example_world [(''AUTOMATE_VIA_SSH'', ''1''), (''SYSTEM_HOST'', ''h''), (''SYSTEM_USER'', ''u'')] True)) = SysExit 1"
proof -
  let ?w = "example_world [(''AUTOMATE_VIA_SSH'', ''1''), (''SYSTEM_HOST'', ''h''), (''SYSTEM_USER'', ''u'')] True"
  have a: "SSH_PRIVATE_KEY ?w = []"
    by (simp add: example_world_def SSH_PRIVATE_KEY_def getenv_def)
  have b: "paramiko_importable ?w" by (simp add: example_world_def)
  have c: "SSH_MODE ?w" by (simp add: example_world_def SSH_MODE_def getenv_def)
  from a have h: "SYSTEM_HOST ?w = [] \<or> SYSTEM_USER ?w = [] \<or> SSH_PRIVATE_KEY ?w = []" by simp
  from C8_missing_configuration [OF h, of DEFAULT_COMMANDS] a b c show ?thesis by simp
qed

subsection \<open>The key step\<close>

text \<open>
  C2 asks that, with host, user and key material all non-empty, a failure to parse the key
  or a missing key-handling capability ends the remote strategy with exit code 1 and a
  message, no exception escaping. The code at such an input: line 53 raises
  \<open>NameError\<close> outside any handler, \<open>run_ssh\<close> does not return, and the process ends on the
  uncaught exception with no summary printed.
\<close>


theorem C2_key_step_raises:
  "run_ssh (example_world [(''AUTOMATE_VIA_SSH'', ''1''), (''SYSTEM_HOST'', ''h''),
       (''SYSTEM_USER'', ''u''), (''SSH_PRIVATE_KEY'', ''k'')] True) DEFAULT_COMMANDS =
     (Inl (Exn ''NameError'' ''name 'io' is not defined''), [Import ''paramiko'']) \<and>
   main (example_world [(''AUTOMATE_VIA_SSH'', ''1''), (''SYSTEM_HOST'', ''h''),
       (''SYSTEM_USER'', ''u''), (''SSH_PRIVATE_KEY'', ''k'')] True) =
     \<lparr>printed = [], ending = Uncaught (Exn ''NameError'' ''name 'io' is not defined''),
      effects = [Import ''paramiko'']\<rparr>"
proof -
  let ?w = "example_world [(''AUTOMATE_VIA_SSH'', ''1''), (''SYSTEM_HOST'', ''h''),
       (''SYSTEM_USER'', ''u''), (''SSH_PRIVATE_KEY'', ''k'')] True"
  have cfg: "paramiko_importable ?w" "SYSTEM_HOST ?w \<noteq> []" "SYSTEM_USER ?w \<noteq> []"
      "SSH_PRIVATE_KEY ?w \<noteq> []" "SSH_MODE ?w"
    by (simp_all add: example_world_def SYSTEM_HOST_def SYSTEM_USER_def SSH_PRIVATE_KEY_def
        SSH_MODE_def getenv_def)
  have r: "run_ssh ?w cmds = (Inl (Exn ''NameError'' ''name 'io' is not defined''), [Import ''paramiko''])" for cmds
    using run_ssh_past_checks [OF cfg(1-4)] by (simp add: name_error_def)
  show ?thesis using cfg(5) by (simp add: r main_def Let_def finish_def)
qed

subsection \<open>What the strategies leave behind\<close>

text \<open>
  The local strategy only spawns commands, and a list of effects without network events
  leaves the session as it was.
\<close>

lemma SSH_MODE_iff: "SSH_MODE w \<longleftrightarrow> environ w ''AUTOMATE_VIA_SSH'' = Some ''1''"
  by (auto simp: SSH_MODE_def getenv_def split: option.splits)

lemma run_local_effects: "\<forall>e \<in> set (snd (run_local w cmds)). \<not> is_remote e \<and> \<not> is_network e"
  using run_local_loop_effects [of w "[]" "[]" cmds] by (auto simp: run_local_def)



subsection \<open>Fail-fast\<close>





lemma run_local_loop_raises:
  assumes k: "k < length cmds"
    and ok: "\<forall>i<k. local_exit w tr cmds i = Some 0"
    and bad: "local_proc w tr cmds k = Inl e"
  shows "run_local_loop w tr out cmds = (Inl e, tr @ map Spawn (take (Suc k) cmds))"
proof -
  have d: "drop k cmds = cmds ! k # drop (Suc k) cmds"
    using k by (simp add: Cons_nth_drop_Suc)
  have "run_local_loop w tr out cmds =
    run_local_loop w (tr @ map Spawn (take k cmds))
      (out @ concat (map (local_entry w tr cmds) [0..<k])) (drop k cmds)"
    using k ok by (intro run_local_loop_prefix) simp_all
  also have "\<dots> = (Inl e, (tr @ map Spawn (take k cmds)) @ [Spawn (cmds ! k)])"
    using bad unfolding d by (simp add: local_proc_def)
  finally show ?thesis
    using k by (simp add: take_Suc_conv_app_nth)
qed





subsection \<open>Runs in which every command succeeds\<close>




subsection \<open>Exceptions and the session\<close>





text \<open>
  The handler of lines 70 and 71 does not close the client; lines 66 and 68 do, on the
  other two paths. Entered with a parsed key, which \<open>run_ssh\<close> as it is does not get to,
  the \<open>try\<close> returns "SSH error: Channel closed." on a host that drops the channel at the
  second command, with the session still open.
\<close>

lemma run_ssh_session_handler_keeps_open:
  "run_ssh_session
     (example_world [(''AUTOMATE_VIA_SSH'', ''1''), (''SYSTEM_HOST'', ''h''),
        (''SYSTEM_USER'', ''u''), (''SSH_PRIVATE_KEY'', ''k'')] True)
     [Import ''paramiko''] (RSAKey ''k'') [''uptime'', ''reboot'', ''ls''] =
     (Inr (1, ''SSH error: Channel closed.''),
      [Import ''paramiko'', ConnectAttempt ''h'' ''u'', SessionOpened,
       ExecCommand ''uptime'', ExecCommand ''reboot'']) \<and>
   session_open [Import ''paramiko'', ConnectAttempt ''h'' ''u'', SessionOpened,
       ExecCommand ''uptime'', ExecCommand ''reboot'']"
  by (simp add: run_ssh_session_def run_ssh_try_def Let_def example_world_def example_host_def
      SYSTEM_HOST_def SYSTEM_USER_def getenv_def session_open_def)

subsection \<open>Strategy selection\<close>

text \<open>
  C6: where \<open>AUTOMATE_VIA_SSH\<close> is unset or holds anything but the string "1", \<open>main\<close>
  runs the local strategy and none of the effects of the remote one occur (no import of
  paramiko, no connection), whatever \<open>SYSTEM_HOST\<close>, \<open>SYSTEM_USER\<close> and
  \<open>SSH_PRIVATE_KEY\<close> hold; where it holds "1", \<open>main\<close> runs the remote strategy and
  spawns no local command.
\<close>

theorem C6_strategy_selection:
  "(environ w ''AUTOMATE_VIA_SSH'' \<noteq> Some ''1'' \<longrightarrow>
      \<not> SSH_MODE w \<and> main w = finish w (run_local w (commands w)) \<and>
      (\<forall>e \<in> set (effects (main w)). \<not> is_remote e \<and> \<not> is_network e)) \<and>
   (environ w ''AUTOMATE_VIA_SSH'' = Some ''1'' \<longrightarrow>
      SSH_MODE w \<and> main w = finish w (run_ssh w (commands w)) \<and>
      Import ''paramiko'' \<in> set (effects (main w)) \<and>
      (\<forall>e \<in> set (effects (main w)). is_remote e))"
proof (intro conjI impI)
  assume a: "environ w ''AUTOMATE_VIA_SSH'' \<noteq> Some ''1''"
  then show m: "\<not> SSH_MODE w" by (simp add: SSH_MODE_iff)
  then show eq: "main w = finish w (run_local w (commands w))" by (simp add: main_def Let_def)
  show "\<forall>e \<in> set (effects (main w)). \<not> is_remote e \<and> \<not> is_network e"
    unfolding eq effects_finish by (rule run_local_effects)
next
  assume a: "environ w ''AUTOMATE_VIA_SSH'' = Some ''1''"
  then show m: "SSH_MODE w" by (simp add: SSH_MODE_iff)
  then show eq: "main w = finish w (run_ssh w (commands w))" by (simp add: main_def Let_def)
  show "Import ''paramiko'' \<in> set (effects (main w))"
    unfolding eq effects_finish by (simp add: run_ssh_effects)
  show "\<forall>e \<in> set (effects (main w)). is_remote e"
    unfolding eq effects_finish by (simp add: run_ssh_effects)
qed

theorem C6_strategy_selection_witness:
  "environ (example_world [(''AUTOMATE_VIA_SSH'', ''true''), (''SYSTEM_HOST'', ''h''),
       (''SYSTEM_USER'', ''u''), (''SSH_PRIVATE_KEY'', ''k''), (''AUTOMATION_COMMAND'', ''exit 7'')] True)
     ''AUTOMATE_VIA_SSH'' \<noteq> Some ''1'' \<and>
   effects (main (example_world [(''AUTOMATE_VIA_SSH'', ''true''), (''SYSTEM_HOST'', ''h''),
       (''SYSTEM_USER'', ''u''), (''SSH_PRIVATE_KEY'', ''k''), (''AUTOMATION_COMMAND'', ''exit 7'')] True))
     = [Spawn ''exit 7''] \<and>
   ending (main (example_world [(''AUTOMATE_VIA_SSH'', ''true''), (''SYSTEM_HOST'', ''h''),
       (''SYSTEM_USER'', ''u''), (''SSH_PRIVATE_KEY'', ''k''), (''AUTOMATION_COMMAND'', ''exit 7'')] True))
     = SysExit 7 \<and>
   environ (example_world [(''AUTOMATE_VIA_SSH'', ''1''), (''AUTOMATION_COMMAND'', ''exit 7'')] True)
     ''AUTOMATE_VIA_SSH'' = Some ''1'' \<and>
   effects (main (example_world [(''AUTOMATE_VIA_SSH'', ''1''), (''AUTOMATION_COMMAND'', ''exit 7'')] True))
     = [Import ''paramiko''] \<and>
   ending (main (example_world [(''AUTOMATE_VIA_SSH'', ''1''), (''AUTOMATION_COMMAND'', ''exit 7'')] True))
     = SysExit 1"
proof -
  let ?l = "example_world [(''AUTOMATE_VIA_SSH'', ''true''), (''SYSTEM_HOST'', ''h''),
       (''SYSTEM_USER'', ''u''), (''SSH_PRIVATE_KEY'', ''k''), (''AUTOMATION_COMMAND'', ''exit 7'')] True"
  let ?r = "example_world [(''AUTOMATE_VIA_SSH'', ''1''), (''AUTOMATION_COMMAND'', ''exit 7'')] True"
  have a: "environ ?l ''AUTOMATE_VIA_SSH'' \<noteq> Some ''1''" by (simp add: example_world_def)
  have b: "environ ?r ''AUTOMATE_VIA_SSH'' = Some ''1''" by (simp add: example_world_def)
  have cl: "commands ?l = [''exit 7'']"
    by (simp add: commands_def AUTOMATION_COMMAND_def getenv_def example_world_def)
  have rl: "run_local ?l [''exit 7''] = (Inr (7, join_lines [''$ exit 7'', [], []]), [Spawn ''exit 7''])"
    by (simp add: run_local_def Let_def example_world_def example_shell_def)
  have rr: "run_ssh ?r cmds =
      (Inr (1, ''Missing SYSTEM_HOST, SYSTEM_USER or SSH_PRIVATE_KEY for SSH mode.''), [Import ''paramiko''])"
    for cmds
    by (simp add: run_ssh_def Let_def SYSTEM_HOST_def getenv_def example_world_def)
  from C6_strategy_selection [of ?l] a have "main ?l = finish ?l (run_local ?l (commands ?l))"
    by blast
  then have l: "effects (main ?l) = [Spawn ''exit 7'']" "ending (main ?l) = SysExit 7"
    by (simp_all add: cl rl finish_def)
  from C6_strategy_selection [of ?r] b have "main ?r = finish ?r (run_ssh ?r (commands ?r))"
    by blast
  then have r: "effects (main ?r) = [Import ''paramiko'']" "ending (main ?r) = SysExit 1"
    by (simp_all add: rr finish_def)
  from a b l r show ?thesis by blast
qed

subsection \<open>The printed summary\<close>

text \<open>
  C9, as stated, fails: in local mode the printed document has a \<open>system_host\<close> entry,
  with the value \<open>null\<close>.
\<close>

theorem C9_system_host_counterexample:
  "\<not> SSH_MODE (example_world [(''AUTOMATION_COMMAND'', ''exit 7'')] False) \<and>
   printed (main (example_world [(''AUTOMATION_COMMAND'', ''exit 7'')] False)) =
     join_lines
      [''{'',
       ''  '' @ [CHR 0x22] @ ''ssh_mode'' @ [CHR 0x22] @ '': false,'',
       ''  '' @ [CHR 0x22] @ ''system_host'' @ [CHR 0x22] @ '': null,'',
       ''  '' @ [CHR 0x22] @ ''exit_code'' @ [CHR 0x22] @ '': 7,'',
       ''  '' @ [CHR 0x22] @ ''output'' @ [CHR 0x22] @ '': '' @
          [CHR 0x22] @ ''$ exit 7'' @ [CHR 0x5C] @ ''n'' @ [CHR 0x5C] @ ''n'' @ [CHR 0x22],
       ''}''] @ [CHR 0x0A]"
  by code_simp

text \<open>
  C9, amended: when the strategy returns a code and an output, the process prints one JSON
  object with the fields \<open>ssh_mode\<close> (a boolean), \<open>system_host\<close>, \<open>exit_code\<close> (an
  integer) and \<open>output\<close> (a string), in this order, and exits with the code. The
  field \<open>system_host\<close> is present in both modes: it holds the string \<open>SYSTEM_HOST\<close> in
  remote mode and \<open>null\<close> in local mode.
\<close>

theorem C9_summary_fields:
  "fst (if SSH_MODE w then run_ssh w (commands w) else run_local w (commands w)) = Inr (code, output)
   \<Longrightarrow>
   ending (main w) = SysExit code \<and>
   printed (main w) =
     json_dumps
       [(''ssh_mode'', JBool (SSH_MODE w)),
        (''system_host'', if SSH_MODE w then JStr (SYSTEM_HOST w) else JNull),
        (''exit_code'', JInt code),
        (''output'', JStr output)] @ [CHR 0x0A] \<and>
   map fst (summary w code output) = [''ssh_mode'', ''system_host'', ''exit_code'', ''output''] \<and>
   map_of (summary w code output) ''system_host'' =
     Some (if SSH_MODE w then JStr (SYSTEM_HOST w) else JNull)"
  by (simp add: main_def Let_def finish_def summary_def)

theorem C9_summary_fields_witness:
  "\<not> SSH_MODE (example_world [(''AUTOMATION_COMMAND'', ''exit 7''), (''SYSTEM_HOST'', ''h'')] False) \<and>
   fst (run_local (example_world [(''AUTOMATION_COMMAND'', ''exit 7''), (''SYSTEM_HOST'', ''h'')] False)
     [''exit 7'']) = Inr (7, ''$ exit 7'' @ [CHR 0x0A, CHR 0x0A]) \<and>
   ending (main (example_world [(''AUTOMATION_COMMAND'', ''exit 7''), (''SYSTEM_HOST'', ''h'')] False))
     = SysExit 7 \<and>
   printed (main (example_world [(''AUTOMATION_COMMAND'', ''exit 7''), (''SYSTEM_HOST'', ''h'')] False)) =
     json_dumps
       [(''ssh_mode'', JBool False), (''system_host'', JNull), (''exit_code'', JInt 7),
        (''output'', JStr (''$ exit 7'' @ [CHR 0x0A, CHR 0x0A]))] @ [CHR 0x0A] \<and>
   SSH_MODE (example_world [(''AUTOMATE_VIA_SSH'', ''1''), (''SYSTEM_HOST'', ''h'')] False) \<and>
   ending (main (example_world [(''AUTOMATE_VIA_SSH'', ''1''), (''SYSTEM_HOST'', ''h'')] False))
     = SysExit 1 \<and>
   printed (main (example_world [(''AUTOMATE_VIA_SSH'', ''1''), (''SYSTEM_HOST'', ''h'')] False)) =
     json_dumps
       [(''ssh_mode'', JBool True), (''system_host'', JStr ''h''), (''exit_code'', JInt 1),
        (''output'', JStr ''paramiko not installed. Add paramiko to requirements.txt or install it.'')]
       @ [CHR 0x0A]"
proof -
  let ?l = "example_world [(''AUTOMATION_COMMAND'', ''exit 7''), (''SYSTEM_HOST'', ''h'')] False"
  let ?r = "example_world [(''AUTOMATE_VIA_SSH'', ''1''), (''SYSTEM_HOST'', ''h'')] False"
  have ml: "\<not> SSH_MODE ?l" and mr: "SSH_MODE ?r"
    by (simp_all add: SSH_MODE_def getenv_def example_world_def)
  have hr: "SYSTEM_HOST ?r = ''h''" by (simp add: SYSTEM_HOST_def getenv_def example_world_def)
  have cl: "commands ?l = [''exit 7'']"
    by (simp add: commands_def AUTOMATION_COMMAND_def getenv_def example_world_def)
  have rl: "fst (run_local ?l [''exit 7'']) = Inr (7, ''$ exit 7'' @ [CHR 0x0A, CHR 0x0A])"
    by (simp add: run_local_def Let_def join_lines_def example_world_def example_shell_def)
  have rr: "fst (run_ssh ?r (commands ?r)) =
      Inr (1, ''paramiko not installed. Add paramiko to requirements.txt or install it.'')"
    by (simp add: run_ssh_def Let_def example_world_def)
  have hl: "fst (if SSH_MODE ?l then run_ssh ?l (commands ?l) else run_local ?l (commands ?l))
      = Inr (7, ''$ exit 7'' @ [CHR 0x0A, CHR 0x0A])"
    using ml rl by (simp add: cl)
  have hr': "fst (if SSH_MODE ?r then run_ssh ?r (commands ?r) else run_local ?r (commands ?r))
      = Inr (1, ''paramiko not installed. Add paramiko to requirements.txt or install it.'')"
    using mr rr by simp
  from C9_summary_fields [OF hl] C9_summary_fields [OF hr'] ml mr hr rl
  show ?thesis by simp
qed

end
